theory Spec2Isabelle
  imports Complex_Main
begin

section \<open>Python values used by the counterfactual explainer\<close>

text \<open>
  Exceptions of the source are values: every \<open>raise\<close>, failed \<open>assert\<close> and failing
  library call is the left summand of a result of type \<open>error + 'a\<close>.
\<close>

datatype error = AssertionError | ValueError | IndexError | KeyError

text \<open>
  A numpy array is its shape together with its elements in row-major order. Floating-point
  numbers are idealised as real numbers.
\<close>

record ndarray =
  shape :: "nat list"
  data :: "real list"

definition wf_array :: "ndarray \<Rightarrow> bool" where
  "wf_array a = (length (data a) = prod_list (shape a))"

text \<open>The \<open>n\<close> consecutive blocks of \<open>k\<close> elements of a row-major buffer.\<close>

definition rows :: "nat \<Rightarrow> nat \<Rightarrow> 'a list \<Rightarrow> 'a list list" where
  "rows n k xs = map (\<lambda>i. take k (drop (i * k) xs)) [0..<n]"

text \<open>numpy broadcasting of two shapes of equal rank.\<close>

fun broadcast_shape :: "nat list \<Rightarrow> nat list \<Rightarrow> nat list option" where
  "broadcast_shape [] [] = Some []"
| "broadcast_shape (a # s) (b # t) =
     (if a = b \<or> a = 1 \<or> b = 1
      then map_option ((#) (if a = 1 then b else a)) (broadcast_shape s t)
      else None)"
| "broadcast_shape _ _ = None"

definition pad_shape :: "nat \<Rightarrow> nat list \<Rightarrow> nat list" where
  "pad_shape n s = replicate (n - length s) 1 @ s"

text \<open>\<open>X - y\<close> on the buffers of two arrays whose shapes (of equal rank) broadcast.\<close>

fun bsub :: "nat list \<Rightarrow> nat list \<Rightarrow> real list \<Rightarrow> real list \<Rightarrow> real list" where
  "bsub (a # s) (b # t) xs ys =
     (if a = b then
        concat (map (\<lambda>i. bsub s t (take (prod_list s) (drop (i * prod_list s) xs))
                                   (take (prod_list t) (drop (i * prod_list t) ys))) [0..<a])
      else if b = 1 then
        concat (map (\<lambda>i. bsub s t (take (prod_list s) (drop (i * prod_list s) xs)) ys) [0..<a])
      else
        concat (map (\<lambda>i. bsub s t xs (take (prod_list t) (drop (i * prod_list t) ys))) [0..<b]))"
| "bsub _ _ xs ys = map (\<lambda>(x, y). x - y) (zip xs ys)"

text \<open>\<open>a.reshape(n, -1)\<close>: numpy refuses to infer the free dimension when \<open>n\<close> is zero
  or does not divide the size.\<close>

definition reshape_rows :: "nat \<Rightarrow> ndarray \<Rightarrow> error + ndarray" where
  "reshape_rows n a =
     (let sz = length (data a)
      in if n = 0 \<or> sz mod n \<noteq> 0 then Inl ValueError
         else Inr \<lparr>shape = [n, sz div n], data = data a\<rparr>)"

text \<open>
  \<open>np.abs(X - y).sum(axis=tuple(np.arange(1, X_dim)))\<close>: one sum per leading index.
  Where \<open>cityblock_batch\<close> gets past its shape checks, \<open>X\<close> has rank at least one and
  \<open>y\<close> has the rank of \<open>X\<close> or one less, so the difference has the rank of \<open>X\<close>.
\<close>

definition abs_diff_row_sums :: "ndarray \<Rightarrow> ndarray \<Rightarrow> error + ndarray" where
  "abs_diff_row_sums X y =
     (let n = max (length (shape X)) (length (shape y));
          sx = pad_shape n (shape X);
          sy = pad_shape n (shape y)
      in case broadcast_shape sx sy of
           None \<Rightarrow> Inl ValueError
         | Some [] \<Rightarrow> Inr \<lparr>shape = [], data = map abs (bsub sx sy (data X) (data y))\<rparr>
         | Some (r0 # rs) \<Rightarrow>
             Inr \<lparr>shape = [r0],
                  data = map sum_list
                    (rows r0 (prod_list rs) (map abs (bsub sx sy (data X) (data y))))\<rparr>)"

definition cityblock_batch :: "ndarray \<Rightarrow> ndarray \<Rightarrow> error + ndarray" where
  "cityblock_batch X y =
     (let X_dim = length (shape X);
          y_dim = length (shape y);
          result = (case abs_diff_row_sums X y of
                      Inl e \<Rightarrow> Inl e
                    | Inr s \<Rightarrow> reshape_rows (hd (shape X)) s)
      in if X_dim = y_dim then
           (case shape y of
              [] \<Rightarrow> Inl IndexError
            | d # _ \<Rightarrow> if d = 1 then result else Inl AssertionError)
         else if tl (shape X) = shape y then result else Inl AssertionError)"

section \<open>Target-function selector\<close>

text \<open>
  The target class of an explanation is \<open>Union[str, int]\<close> in the source: one of the
  strings \<open>'same'\<close> and \<open>'other'\<close>, or a class index.
\<close>

datatype target = TInt int | TStr string

text \<open>
  \<open>a[:, k]\<close> for a two-dimensional array \<open>a\<close> and an integer \<open>k\<close>: negative indices
  count from the last column, an index outside the columns raises. An array of rank one
  has too many indices; prediction functions return arrays of rank two.
\<close>

definition select_column :: "ndarray \<Rightarrow> int \<Rightarrow> error + real list" where
  "select_column a k =
     (case shape a of
        [n, c] \<Rightarrow>
          (let j = (if k < 0 then k + int c else k)
           in if 0 \<le> j \<and> j < int c
              then Inr (map (\<lambda>i. data a ! (i * c + nat j)) [0..<n])
              else Inl IndexError)
      | _ \<Rightarrow> Inl IndexError)"

text \<open>\<open>a[:, t]\<close> for a target: numpy accepts no string as an index.\<close>

fun index_column :: "ndarray \<Rightarrow> target \<Rightarrow> error + real list" where
  "index_column a (TInt k) = select_column a k"
| "index_column a (TStr s) = Inl IndexError"

text \<open>
  \<open>np.argsort(-r)\<close> for one row \<open>r\<close>: the class indices in decreasing order of
  probability. Equal probabilities keep their index order here; numpy leaves the order of
  ties to the sorting algorithm.
\<close>

definition argsort_neg :: "real list \<Rightarrow> nat list" where
  "argsort_neg r = sort_key (\<lambda>i. - (r ! i)) [0..<length r]"

text \<open>
  The class chosen in the body of \<open>func\<close> for \<open>'other'\<close>: \<open>sorted[0, 0]\<close> unless that
  is the predicted class, \<open>sorted[0, 1]\<close> then.
\<close>

definition other_target :: "ndarray \<Rightarrow> int \<Rightarrow> error + nat" where
  "other_target probas pred_class =
     (case shape probas of
        [n, c] \<Rightarrow>
          (let sorted0 = argsort_neg (take c (data probas))
           in if n = 0 \<or> c = 0 then Inl IndexError
              else if int (sorted0 ! 0) = pred_class then
                (if c < 2 then Inl IndexError else Inr (sorted0 ! 1))
              else Inr (sorted0 ! 0))
      | _ \<Rightarrow> Inl IndexError)"

definition define_func ::
  "('x \<Rightarrow> ndarray) \<Rightarrow> int \<Rightarrow> target \<Rightarrow> ('x \<Rightarrow> error + real list) \<times> target" where
  "define_func predict_fn pred_class target_class =
     (if target_class = TStr ''other'' then
        ((\<lambda>X. case other_target (predict_fn X) pred_class of
                 Inl e \<Rightarrow> Inl e
               | Inr tc \<Rightarrow> select_column (predict_fn X) (int tc)),
         target_class)
      else
        (let target_class' =
               (if target_class = TStr ''same'' then TInt pred_class else target_class)
         in (\<lambda>X. index_column (predict_fn X) target_class', target_class')))"

section \<open>Loss and gradient of the Wachter loss\<close>

type_synonym vec = "real list"

text \<open>
  The configured finite-difference step: absent, one float, or an array with one step
  per feature.
\<close>

datatype epsilons = EpsNone | EpsFloat real | EpsArray "real list"

text \<open>
  Arithmetic of two one-dimensional arrays: elementwise when the lengths agree, with
  the single element repeated when one of them has length one.
\<close>

definition broadcast1 :: "(real \<Rightarrow> real \<Rightarrow> real) \<Rightarrow> vec \<Rightarrow> vec \<Rightarrow> error + vec" where
  "broadcast1 f u v =
     (if length u = length v then Inr (map (\<lambda>(a, b). f a b) (zip u v))
      else if length u = 1 then Inr (map (f (hd u)) v)
      else if length v = 1 then Inr (map (\<lambda>a. f a (hd v)) u)
      else Inl ValueError)"

text \<open>
  \<open>scipy.spatial.distance.cityblock\<close>, the entry \<open>'l1'\<close> of the metric registry:
  the sum of the absolute differences of two vectors.
\<close>

definition cityblock :: "vec \<Rightarrow> vec \<Rightarrow> error + real" where
  "cityblock u v =
     (case broadcast1 (\<lambda>a b. a - b) u v of
        Inl e \<Rightarrow> Inl e
      | Inr d \<Rightarrow> Inr (sum_list (map abs d)))"

definition metric_dict :: "string \<Rightarrow> (vec \<Rightarrow> vec \<Rightarrow> error + real) option" where
  "metric_dict k = (if k = ''l1'' then Some cityblock else None)"

text \<open>
  The numerical differentiation routine of statsmodels is a parameter of the model: it
  takes the point, the function (its extra arguments already supplied, a scalar result
  being a one-element array) and the optional step, and is always called centered.
\<close>

type_synonym fprime = "vec \<Rightarrow> (vec \<Rightarrow> error + vec) \<Rightarrow> real option \<Rightarrow> error + vec"

definition num_grad :: "fprime \<Rightarrow> (vec \<Rightarrow> error + vec) \<Rightarrow> vec \<Rightarrow> real option \<Rightarrow> error + vec" where
  "num_grad approx_fprime func X epsilon = approx_fprime X func epsilon"

definition get_wachter_grads ::
  "fprime \<Rightarrow> vec \<Rightarrow> (vec \<Rightarrow> error + vec) \<Rightarrow> (vec \<Rightarrow> vec \<Rightarrow> error + real) \<Rightarrow> vec \<Rightarrow> real \<Rightarrow> real
     \<Rightarrow> epsilons \<Rightarrow> string \<Rightarrow> error + vec \<times> vec" where
  "get_wachter_grads approx_fprime X_current predict_class_fn distance_fn X_test target_proba lam
      epsilons method =
     (let eps = (case epsilons of EpsFloat e \<Rightarrow> Some e | _ \<Rightarrow> None)
      in case predict_class_fn X_current of
           Inl e \<Rightarrow> Inl e
         | Inr pred \<Rightarrow>
      (case num_grad approx_fprime predict_class_fn X_current eps of
           Inl e \<Rightarrow> Inl e
         | Inr prediction_grad \<Rightarrow>
      (case num_grad approx_fprime
              (\<lambda>x. case distance_fn x X_test of Inl e \<Rightarrow> Inl e | Inr d \<Rightarrow> Inr [d])
              X_current eps of
           Inl e \<Rightarrow> Inl e
         | Inr distance_grad \<Rightarrow>
      (if method = ''wachter'' then
         (case distance_fn X_current X_test of
            Inl e \<Rightarrow> Inl e
          | Inr d \<Rightarrow>
         (case broadcast1 (*) (map (\<lambda>p. 2 * lam * (p - target_proba)) pred) prediction_grad of
            Inl e \<Rightarrow> Inl e
          | Inr g \<Rightarrow>
         (case broadcast1 (+) g distance_grad of
            Inl e \<Rightarrow> Inl e
          | Inr grad_loss \<Rightarrow>
              Inr (map (\<lambda>p. lam * (p - target_proba)\<^sup>2 + d) pred, grad_loss))))
       else if method = ''wachter_rev'' then
         (case distance_fn X_current X_test of
            Inl e \<Rightarrow> Inl e
          | Inr d \<Rightarrow>
         (case broadcast1 (*) (map (\<lambda>p. 2 * (p - target_proba)) pred) prediction_grad of
            Inl e \<Rightarrow> Inl e
          | Inr g \<Rightarrow>
         (case broadcast1 (+) g (map (\<lambda>x. lam * x) distance_grad) of
            Inl e \<Rightarrow> Inl e
          | Inr grad_loss \<Rightarrow>
              Inr (map (\<lambda>p. (p - target_proba)\<^sup>2 + lam * d) pred, grad_loss))))
       else if method = ''adiabatic'' then
         (case distance_fn X_current X_test of
            Inl e \<Rightarrow> Inl e
          | Inr d \<Rightarrow>
         (case broadcast1 (*) (map (\<lambda>p. 2 * lam * (p - target_proba)) pred) prediction_grad of
            Inl e \<Rightarrow> Inl e
          | Inr g \<Rightarrow>
         (case broadcast1 (+) g (map (\<lambda>x. (1 - lam) * x) distance_grad) of
            Inl e \<Rightarrow> Inl e
          | Inr grad_loss \<Rightarrow>
              Inr (map (\<lambda>p. lam * (p - target_proba)\<^sup>2 + (1 - lam) * d) pred, grad_loss))))
       else Inl ValueError))))"

section \<open>The explainer and its search\<close>

text \<open>
  What the explainer is given from outside: the classifier, already wrapped as in the
  constructor's black-box branch (the instance reshaped to one row, so an instance is its
  flat list of features and the result has one row of class probabilities), the numerical
  differentiation routine, the TensorFlow operation \<open>apply_grad\<close> (one optimizer step on
  the variable \<open>cf\<close> followed by the clipping constraint, acting on the variable and the
  optimizer's own state), and numpy's random generator.
\<close>

record ('o, 'r) env =
  predict_fn :: "vec \<Rightarrow> ndarray"
  approx_fprime :: fprime
  apply_grad :: "vec \<Rightarrow> vec \<times> 'o \<Rightarrow> vec \<times> 'o"
  rand :: "nat list \<Rightarrow> 'r \<Rightarrow> vec \<times> 'r"

text \<open>
  The attributes of a \<open>CounterFactual\<close> object that the search reads; the attribute
  \<open>method\<close> is the field \<open>loss_method\<close>.
\<close>

record explainer =
  data_shape :: "nat list"
  distance_fn :: "vec \<Rightarrow> vec \<Rightarrow> error + real"
  target_proba :: real
  target_class :: target
  max_iter :: nat
  lam_init :: real
  lam_step :: real
  max_lam_steps :: nat
  tol :: real
  epsilons :: epsilons
  loss_method :: string
  init :: string

text \<open>
  The state that lives in the TensorFlow session and in numpy between calls: the value of
  the variable \<open>cf\<close>, the state of the optimizer and the state of the random generator.
\<close>

record ('o, 'r) session =
  cf :: vec
  opt :: 'o
  rng :: 'r

text \<open>
  The constructor looks the metric up in the registry, creates the variables and runs
  their initializer once; \<open>cf0\<close> and \<open>opt0\<close> are the values the initializer gives
  the candidate variable and the optimizer.
\<close>

definition CounterFactual ::
  "nat list \<Rightarrow> string \<Rightarrow> real \<Rightarrow> target \<Rightarrow> nat \<Rightarrow> real \<Rightarrow> real \<Rightarrow> nat \<Rightarrow> real \<Rightarrow> epsilons
     \<Rightarrow> string \<Rightarrow> string \<Rightarrow> vec \<Rightarrow> 'o \<Rightarrow> 'r \<Rightarrow> error + explainer \<times> ('o, 'r) session" where
  "CounterFactual data_shape' distance_fn' target_proba' target_class' max_iter' lam_init'
      lam_step' max_lam_steps' tol' epsilons' method' init' cf0 opt0 rng0 =
     (case metric_dict distance_fn' of
        None \<Rightarrow> Inl KeyError
      | Some d \<Rightarrow>
          Inr (\<lparr>data_shape = data_shape', distance_fn = d, target_proba = target_proba',
                 target_class = target_class', max_iter = max_iter', lam_init = lam_init',
                 lam_step = lam_step', max_lam_steps = max_lam_steps', tol = tol',
                 epsilons = epsilons', loss_method = method', init = init'\<rparr>,
               \<lparr>cf = cf0, opt = opt0, rng = rng0\<rparr>))"

text \<open>The dictionary returned by \<open>explain\<close>.\<close>

record explanation =
  X_cf :: vec
  loss :: "vec list"
  grads :: "vec list"
  dists :: "real list"
  Xs :: "vec list"
  lambdas :: "real list"
  prob_cond :: "bool list list"
  prob :: "real list"
  classes :: "nat list"
  success :: bool

text \<open>The lengths of the eight lists of the dictionary, in the order of the record.\<close>

definition history_lengths :: "explanation \<Rightarrow> nat list" where
  "history_lengths rd =
     [length (loss rd), length (grads rd), length (dists rd), length (Xs rd),
      length (lambdas rd), length (prob_cond rd), length (prob rd), length (classes rd)]"

text \<open>\<open>a.argmax()\<close> and \<open>a.max()\<close> on the elements of an array; both raise on none.\<close>

definition max_elem :: "real list \<Rightarrow> error + real" where
  "max_elem xs = (case xs of [] \<Rightarrow> Inl ValueError | x # r \<Rightarrow> Inr (fold max r x))"

definition argmax :: "real list \<Rightarrow> error + nat" where
  "argmax xs =
     (case xs of
        [] \<Rightarrow> Inl ValueError
      | x # r \<Rightarrow> Inr (length (takeWhile (\<lambda>v. v \<noteq> fold max r x) xs)))"

definition initialize :: "explainer \<Rightarrow> ('o, 'r) env \<Rightarrow> vec \<Rightarrow> 'r \<Rightarrow> error + vec \<times> 'r" where
  "initialize self E X r =
     (if init self = ''identity'' then Inr (X, r)
      else if init self = ''random'' then Inr (rand E (data_shape self) r)
      else Inl ValueError)"

definition prob_condition :: "explainer \<Rightarrow> (vec \<Rightarrow> error + vec) \<Rightarrow> vec \<Rightarrow> error + bool list" where
  "prob_condition self predict_class_fn X_current =
     (case predict_class_fn X_current of
        Inl e \<Rightarrow> Inl e
      | Inr p \<Rightarrow> Inr (map (\<lambda>q. \<bar>q - target_proba self\<bar> \<le> tol self) p))"

text \<open>
  One pass through the body of the inner loop, on the current candidate, the dictionary
  under construction and the session.
\<close>

definition inner_step ::
  "explainer \<Rightarrow> ('o, 'r) env \<Rightarrow> (vec \<Rightarrow> error + vec) \<Rightarrow> vec \<Rightarrow> real
     \<Rightarrow> vec \<times> explanation \<times> ('o, 'r) session \<Rightarrow> error + vec \<times> explanation \<times> ('o, 'r) session" where
  "inner_step self E predict_class_fn X lam st =
     (case st of (X_current, rd, w) \<Rightarrow>
      (case get_wachter_grads (approx_fprime E) X_current predict_class_fn (distance_fn self) X
              (target_proba self) lam (epsilons self) (loss_method self) of
         Inl e \<Rightarrow> Inl e
       | Inr (l, gradients) \<Rightarrow>
      (let (cf', opt') = apply_grad E gradients (cf w, opt w);
           w' = w\<lparr>cf := cf', opt := opt'\<rparr>;
           X_current' = cf w'
       in case distance_fn self X X_current' of
            Inl e \<Rightarrow> Inl e
          | Inr d \<Rightarrow>
         (case prob_condition self predict_class_fn X_current' of
            Inl e \<Rightarrow> Inl e
          | Inr pc \<Rightarrow>
         (let probas = predict_fn E X_current'
          in case argmax (data probas) of
               Inl e \<Rightarrow> Inl e
             | Inr pred_class \<Rightarrow>
            (case max_elem (data probas) of
               Inl e \<Rightarrow> Inl e
             | Inr p \<Rightarrow>
                 Inr (X_current',
                      rd\<lparr>Xs := Xs rd @ [X_current'], loss := loss rd @ [l],
                         grads := grads rd @ [gradients], dists := dists rd @ [d],
                         lambdas := lambdas rd @ [lam], prob_cond := prob_cond rd @ [pc],
                         prob := prob rd @ [p], classes := classes rd @ [pred_class]\<rparr>,
                      w')))))))"

text \<open>\<open>for i in range(self.max_iter)\<close>, by the number of passes still to make.\<close>

fun inner_loop ::
  "explainer \<Rightarrow> ('o, 'r) env \<Rightarrow> (vec \<Rightarrow> error + vec) \<Rightarrow> vec \<Rightarrow> real \<Rightarrow> nat
     \<Rightarrow> vec \<times> explanation \<times> ('o, 'r) session \<Rightarrow> error + vec \<times> explanation \<times> ('o, 'r) session" where
  "inner_loop self E predict_class_fn X lam 0 st = Inr st"
| "inner_loop self E predict_class_fn X lam (Suc n) st =
     (case inner_step self E predict_class_fn X lam st of
        Inl e \<Rightarrow> Inl e
      | Inr st' \<Rightarrow> inner_loop self E predict_class_fn X lam n st')"

text \<open>
  The outer loop either leaves the function through the \<open>return\<close> in its body or runs
  out of passes and falls through to the code after it.
\<close>

datatype ('a, 'b) flow = Return 'a | Fallthrough 'b

text \<open>
  \<open>for _ in range(self.max_lam_steps)\<close>, by the number of passes still to make, on
  \<open>lam\<close>, \<open>lam_steps\<close>, the current candidate, the dictionary and the session.
\<close>

fun outer_loop ::
  "explainer \<Rightarrow> ('o, 'r) env \<Rightarrow> (vec \<Rightarrow> error + vec) \<Rightarrow> vec \<Rightarrow> nat
     \<Rightarrow> real \<times> nat \<times> vec \<times> explanation \<times> ('o, 'r) session
     \<Rightarrow> error + (explanation \<times> ('o, 'r) session,
                 real \<times> nat \<times> vec \<times> explanation \<times> ('o, 'r) session) flow" where
  "outer_loop self E predict_class_fn X 0 st = Inr (Fallthrough st)"
| "outer_loop self E predict_class_fn X (Suc n) (lam, lam_steps, X_current, rd, w) =
     (if lam_steps = max_lam_steps self then Inr (Return (rd, w))
      else case inner_loop self E predict_class_fn X lam (max_iter self) (X_current, rd, w) of
             Inl e \<Rightarrow> Inl e
           | Inr (X_current', rd', w') \<Rightarrow>
               outer_loop self E predict_class_fn X n
                 (lam * lam_step self, lam_steps + 1, X_current', rd'\<lparr>X_cf := X_current'\<rparr>, w'))"

definition minimize_wachter_loss ::
  "explainer \<Rightarrow> ('o, 'r) env \<Rightarrow> (vec \<Rightarrow> error + vec) \<Rightarrow> vec \<Rightarrow> vec \<Rightarrow> ('o, 'r) session
     \<Rightarrow> error + explanation \<times> ('o, 'r) session" where
  "minimize_wachter_loss self E predict_class_fn X X_init w =
     (let return_dict = \<lparr>X_cf = X_init, loss = [], grads = [], dists = [], Xs = [],
                           lambdas = [], prob_cond = [], prob = [], classes = [],
                           success = False\<rparr>
      in case outer_loop self E predict_class_fn X (max_lam_steps self)
                (lam_init self, 0, X_init, return_dict, w) of
           Inl e \<Rightarrow> Inl e
         | Inr (Return res) \<Rightarrow> Inr res
         | Inr (Fallthrough (lam, lam_steps, X_current, rd, w')) \<Rightarrow>
             Inr (rd\<lparr>success := True\<rparr>, w'))"

definition explain ::
  "explainer \<Rightarrow> ('o, 'r) env \<Rightarrow> vec \<Rightarrow> ('o, 'r) session \<Rightarrow> error + explanation \<times> ('o, 'r) session" where
  "explain self E X w =
     (case argmax (data (predict_fn E X)) of
        Inl e \<Rightarrow> Inl e
      | Inr pred_class \<Rightarrow>
     (let (predict_class_fn, t_class) =
            define_func (predict_fn E) (int pred_class) (target_class self)
      in case initialize self E X (rng w) of
           Inl e \<Rightarrow> Inl e
         | Inr (X_init, r') \<Rightarrow>
             minimize_wachter_loss self E predict_class_fn X X_init (w\<lparr>rng := r'\<rparr>)))"

section \<open>Concrete collaborators and inputs\<close>

text \<open>
  Instances of the outside capabilities on which the definitions above can be run: two
  classifiers with two classes, a centered finite difference, plain gradient descent
  with a step counter as the optimizer's state, and a generator that draws zeros.
\<close>

definition row_predictor :: "vec \<Rightarrow> ndarray" where
  "row_predictor X = \<lparr>shape = [1, length X], data = X\<rparr>"

definition const_predictor :: "vec \<Rightarrow> ndarray" where
  "const_predictor X = \<lparr>shape = [1, 2], data = [3 / 5, 2 / 5]\<rparr>"

definition ramp_predictor :: "vec \<Rightarrow> ndarray" where
  "ramp_predictor X =
     (let c = min 1 (max 0 (sum_list X)) in \<lparr>shape = [1, 2], data = [1 - c, c]\<rparr>)"

definition central_difference :: fprime where
  "central_difference X f eps =
     (let h = (case eps of None \<Rightarrow> 1 / 100 | Some e \<Rightarrow> e)
      in fold (\<lambda>i acc.
                 case acc of
                   Inl e \<Rightarrow> Inl e
                 | Inr g \<Rightarrow>
                    (case f (X[i := X ! i + h]) of
                       Inl e \<Rightarrow> Inl e
                     | Inr a \<Rightarrow>
                        (case f (X[i := X ! i - h]) of
                           Inl e \<Rightarrow> Inl e
                         | Inr b \<Rightarrow> Inr (g @ [(sum_list a - sum_list b) / (2 * h)]))))
              [0..<length X] (Inr []))"

definition gradient_descent :: "real \<Rightarrow> vec \<Rightarrow> vec \<times> nat \<Rightarrow> vec \<times> nat" where
  "gradient_descent lr g st =
     (case st of (c, t) \<Rightarrow> (map (\<lambda>(ci, gi). ci - lr * gi) (zip c g), Suc t))"

definition zero_rand :: "nat list \<Rightarrow> nat \<Rightarrow> vec \<times> nat" where
  "zero_rand s r = (replicate (prod_list s) 0, Suc r)"

definition env_const :: "(nat, nat) env" where
  "env_const = \<lparr>predict_fn = const_predictor, approx_fprime = central_difference,
                 apply_grad = gradient_descent (1 / 10), rand = zero_rand\<rparr>"

definition explainer0 :: explainer where
  "explainer0 = \<lparr>data_shape = [1, 1], distance_fn = cityblock, target_proba = 9 / 10,
                  target_class = TStr ''other'', max_iter = 3, lam_init = 1, lam_step = 2,
                  max_lam_steps = 2, tol = 1 / 20, epsilons = EpsNone,
                  loss_method = ''wachter'',
                  init = ''identity''\<rparr>"

definition session0 :: "(nat, nat) session" where
  "session0 = \<lparr>cf = [1 / 2], opt = 0, rng = 0\<rparr>"

definition X_empty :: ndarray where
  "X_empty = \<lparr>shape = [0, 2], data = []\<rparr>"

definition X_batch :: ndarray where
  "X_batch = \<lparr>shape = [3, 2], data = [1, 2, 3, 4, 5, 6]\<rparr>"

definition y_ref :: ndarray where
  "y_ref = \<lparr>shape = [2], data = [1, 2]\<rparr>"

definition X_row :: ndarray where
  "X_row = \<lparr>shape = [1, 2], data = [1, 5]\<rparr>"

definition probas_a :: vec where
  "probas_a = [1 / 10, 7 / 10, 2 / 10]"

definition probas_b :: vec where
  "probas_b = [6 / 10, 3 / 10, 1 / 10]"

definition probas_c :: vec where
  "probas_c = [3 / 10, 6 / 10, 1 / 10]"

text \<open>
  What two successive calls of \<open>explain\<close> on \<open>[0]\<close> return for \<open>explainer0\<close> with the
  constant classifier, and the session each of them leaves behind.
\<close>

definition run_first :: explanation where
  "run_first =
     \<lparr>X_cf = [0],
      loss = [[1 / 4], [3 / 4], [13 / 20], [4 / 5], [7 / 10], [3 / 5]],
      grads = [[0], [1], [1], [1], [1], [1]],
      dists = [1 / 2, 2 / 5, 3 / 10, 1 / 5, 1 / 10, 0],
      Xs = [[1 / 2], [2 / 5], [3 / 10], [1 / 5], [1 / 10], [0]],
      lambdas = [1, 1, 1, 2, 2, 2],
      prob_cond = [[False], [False], [False], [False], [False], [False]],
      prob = [3 / 5, 3 / 5, 3 / 5, 3 / 5, 3 / 5, 3 / 5],
      classes = [0, 0, 0, 0, 0, 0], success = True\<rparr>"

definition session_first :: "(nat, nat) session" where
  "session_first = \<lparr>cf = [0], opt = 6, rng = 0\<rparr>"



section \<open>The batched L1 distance\<close>

lemma broadcast_shape_same: "broadcast_shape s s = Some s"
  by (induction s) auto

lemma bsub_self_zero: "v \<in> set (bsub s s xs xs) \<Longrightarrow> v = 0"
proof (induction s arbitrary: xs v)
  case Nil
  then show ?case by (auto simp: set_zip)
next
  case (Cons a s)
  then show ?case by auto
qed

lemma sum_list_abs_nonneg: "0 \<le> sum_list (map abs (xs :: real list))"
  by (induction xs) auto

lemma rows_map: "rows n k (map f xs) = map (map f) (rows n k xs)"
  by (simp add: rows_def take_map drop_map)

lemma set_rows_subset: "r \<in> set (rows n k xs) \<Longrightarrow> set r \<subseteq> set xs"
  by (auto simp: rows_def dest: in_set_takeD in_set_dropD)

lemma length_rows: "length (rows n k xs) = n"
  by (simp add: rows_def)

lemma row_sums_nonneg:
  "v \<in> set (map sum_list (rows n k (map abs (xs :: real list)))) \<Longrightarrow> 0 \<le> v"
  by (auto simp: rows_map sum_list_abs_nonneg)

lemma row_sums_zero:
  assumes "\<forall>x \<in> set xs. x = (0::real)"
    and "v \<in> set (map sum_list (rows n k (map abs xs)))"
  shows "v = 0"
proof -
  from assms(2) obtain r where r: "r \<in> set (rows n k xs)" and v: "v = sum_list (map abs r)"
    by (auto simp: rows_map)
  from r assms(1) have "\<forall>x \<in> set r. x = 0"
    using set_rows_subset by blast
  then have "sum_list (map abs r) = 0"
    by (induction r) auto
  with v show ?thesis by simp
qed

text \<open>
  Claim C10, as the code has it. For \<open>X\<close> and \<open>y\<close> of one shape whose first dimension is
  1, or \<open>X\<close> a batch of at least one row whose rows have the shape of \<open>y\<close>,
  \<open>cityblock_batch\<close> returns a column with one entry per row of \<open>X\<close>, every entry is
  non-negative, and the distance of an array to itself is zero everywhere.
\<close>

theorem cityblock_batch_rows_nonneg:
  assumes "(shape X = shape y \<and> (\<exists>s. shape y = 1 # s)) \<or> (\<exists>n. 0 < n \<and> shape X = n # shape y)"
  shows "\<exists>d. cityblock_batch X y = Inr \<lparr>shape = [hd (shape X), 1], data = d\<rparr>
            \<and> length d = hd (shape X) \<and> (\<forall>v \<in> set d. 0 \<le> v)
            \<and> (y = X \<longrightarrow> (\<forall>v \<in> set d. v = 0))"
  using assms
proof (elim disjE conjE exE)
  fix s assume eq: "shape X = shape y" and sy: "shape y = 1 # s"
  let ?d = "map sum_list (rows 1 (prod_list s) (map abs (bsub (1 # s) (1 # s) (data X) (data y))))"
  have ads: "abs_diff_row_sums X y = Inr \<lparr>shape = [1], data = ?d\<rparr>"
    using eq sy by (simp add: abs_diff_row_sums_def pad_shape_def broadcast_shape_same)
  have cb: "cityblock_batch X y = Inr \<lparr>shape = [1, 1], data = ?d\<rparr>"
    unfolding cityblock_batch_def Let_def ads using eq sy
    by (simp add: reshape_rows_def length_rows)
  have nn: "\<forall>v \<in> set ?d. 0 \<le> v"
    using row_sums_nonneg by blast
  have z: "y = X \<longrightarrow> (\<forall>v \<in> set ?d. v = 0)"
  proof
    assume "y = X"
    then have "\<forall>x \<in> set (bsub (1 # s) (1 # s) (data X) (data y)). x = 0"
      using bsub_self_zero by blast
    then show "\<forall>v \<in> set ?d. v = 0"
      using row_sums_zero by blast
  qed
  show ?thesis
    using cb nn z eq sy by (intro exI[of _ ?d]) (simp add: length_rows)
next
  fix n assume n: "0 < n" and sx: "shape X = n # shape y"
  let ?s = "shape y"
  let ?d = "map sum_list (rows n (prod_list ?s) (map abs (bsub (n # ?s) (1 # ?s) (data X) (data y))))"
  have ads: "abs_diff_row_sums X y = Inr \<lparr>shape = [n], data = ?d\<rparr>"
    using sx by (simp add: abs_diff_row_sums_def pad_shape_def broadcast_shape_same max_def)
  have cb: "cityblock_batch X y = Inr \<lparr>shape = [n, 1], data = ?d\<rparr>"
    unfolding cityblock_batch_def Let_def ads using sx n
    by (simp add: reshape_rows_def length_rows)
  have nn: "\<forall>v \<in> set ?d. 0 \<le> v"
    using row_sums_nonneg by blast
  have ne: "y \<noteq> X" using sx by auto
  show ?thesis
    using cb nn ne sx by (intro exI[of _ ?d]) (simp add: length_rows)
qed

text \<open>
  The theorem at a batch of three rows against one reference row, and at one row against
  itself.
\<close>

theorem cityblock_batch_rows_nonneg_witness:
  "(\<exists>n. 0 < n \<and> shape X_batch = n # shape y_ref)
   \<and> (\<exists>d. cityblock_batch X_batch y_ref = Inr \<lparr>shape = [3, 1], data = d\<rparr>
          \<and> length d = 3 \<and> (\<forall>v \<in> set d. 0 \<le> v))
   \<and> cityblock_batch X_batch y_ref = Inr \<lparr>shape = [3, 1], data = [0, 4, 8]\<rparr>
   \<and> (\<exists>s. shape X_row = 1 # s)
   \<and> (\<exists>d. cityblock_batch X_row X_row = Inr \<lparr>shape = [1, 1], data = d\<rparr>
          \<and> length d = 1 \<and> (\<forall>v \<in> set d. v = 0))"
proof -
  have h1: "\<exists>n. 0 < n \<and> shape X_batch = n # shape y_ref"
    by (simp add: X_batch_def y_ref_def)
  have h2: "\<exists>s. shape X_row = 1 # s"
    by (simp add: X_row_def)
  have s1: "hd (shape X_batch) = 3" "hd (shape X_row) = 1"
    by (simp_all add: X_batch_def X_row_def)
  have c1: "\<exists>d. cityblock_batch X_batch y_ref = Inr \<lparr>shape = [3, 1], data = d\<rparr>
          \<and> length d = 3 \<and> (\<forall>v \<in> set d. 0 \<le> v)"
    using cityblock_batch_rows_nonneg [of X_batch y_ref] h1 unfolding s1 by blast
  have c2: "\<exists>d. cityblock_batch X_row X_row = Inr \<lparr>shape = [1, 1], data = d\<rparr>
          \<and> length d = 1 \<and> (\<forall>v \<in> set d. v = 0)"
    using cityblock_batch_rows_nonneg [of X_row X_row] h2 unfolding s1 by blast
  have v: "cityblock_batch X_batch y_ref = Inr \<lparr>shape = [3, 1], data = [0, 4, 8]\<rparr>"
    by code_simp
  show ?thesis
    using h1 c1 v h2 c2 by blast
qed

text \<open>
  Claim C10 as stated also covers a batch \<open>X\<close> of no rows, whose row shape equals the
  shape of \<open>y\<close>: there the final \<open>reshape(X.shape[0], -1)\<close> cannot infer the free
  dimension and the call raises instead of returning an array.
\<close>

theorem cityblock_batch_empty_batch_fails:
  "shape X_empty = 0 # shape y_ref \<and> cityblock_batch X_empty y_ref = Inl ValueError"
  by (simp add: cityblock_batch_def abs_diff_row_sums_def pad_shape_def reshape_rows_def
      rows_def X_empty_def y_ref_def)

text \<open>
  Two arrays of one shape pass the shape check only when the first dimension is 1: a
  batch of three rows against itself fails the assertion.
\<close>

lemma cityblock_batch_self_needs_batch_one:
  "cityblock_batch X_batch X_batch = Inl AssertionError"
  by (simp add: cityblock_batch_def X_batch_def)

section \<open>The target-function selector\<close>

text \<open>
  Claim C3, as the code has it. With probabilities \<open>[0.1, 0.7, 0.2]\<close> and predicted class
  1 the class chosen under \<open>'other'\<close> is 2, the most probable class other than the
  predicted one; with \<open>[0.6, 0.3, 0.1]\<close> and predicted class 0 it is 1.
\<close>

theorem other_target_examples:
  "other_target (row_predictor probas_a) 1 = Inr 2
   \<and> other_target (row_predictor probas_b) 0 = Inr 1"
  by (simp add: other_target_def row_predictor_def argsort_neg_def probas_a_def probas_b_def
      upt_rec)

text \<open>
  Claim C3 as stated gives class 0 for the first example. The code chooses class 2 there,
  and the scalar function returns that class's probability 0.2.
\<close>

theorem other_target_first_example_not_class_0:
  "other_target (row_predictor probas_a) 1 \<noteq> Inr 0
   \<and> fst (define_func row_predictor 1 (TStr ''other'')) probas_a = Inr [2 / 10]"
  by (simp add: define_func_def other_target_def select_column_def row_predictor_def
      argsort_neg_def probas_a_def upt_rec)

lemma argsort_neg_props:
  "length (argsort_neg r) = length r"
  "set (argsort_neg r) = {0..<length r}"
  "distinct (argsort_neg r)"
  "sorted (map (\<lambda>i. - (r ! i)) (argsort_neg r))"
  by (simp_all add: argsort_neg_def)

lemma argsort_neg_nth_mono:
  assumes "i \<le> j" "j < length r"
  shows "r ! (argsort_neg r ! j) \<le> r ! (argsort_neg r ! i)"
proof -
  have "map (\<lambda>i. - (r ! i)) (argsort_neg r) ! i \<le> map (\<lambda>i. - (r ! i)) (argsort_neg r) ! j"
    using assms argsort_neg_props(1,4) [of r] by (intro sorted_nth_mono) simp_all
  then show ?thesis
    using assms by (simp add: argsort_neg_props(1))
qed

lemma argsort_neg_index:
  assumes "length r = c" and "j < c"
  shows "\<exists>m<c. argsort_neg r ! m = j"
proof -
  have "j \<in> set (argsort_neg r)"
    using assms by (simp add: argsort_neg_props(2))
  then show ?thesis
    using assms(1) by (auto simp: in_set_conv_nth argsort_neg_props(1))
qed

lemma argsort_neg_bound:
  assumes "length r = c" and "m < c"
  shows "argsort_neg r ! m < c"
  using assms argsort_neg_props(1,2) [of r] nth_mem [of m "argsort_neg r"] by auto

lemma other_target_best_other:
  assumes sh: "shape probas = [n, c]" and n: "0 < n" and c: "2 \<le> c"
    and len: "c \<le> length (data probas)"
  shows "\<exists>k<c. other_target probas pc = Inr k \<and> int k \<noteq> pc
           \<and> (\<forall>j<c. int j \<noteq> pc \<longrightarrow> data probas ! j \<le> data probas ! k)"
proof -
  let ?r = "take c (data probas)"
  let ?s = "argsort_neg ?r"
  have lr: "length ?r = c" using len by simp
  have rj: "\<And>j. j < c \<Longrightarrow> ?r ! j = data probas ! j" by simp
  show ?thesis
  proof (cases "int (?s ! 0) = pc")
    case True
    let ?k = "?s ! 1"
    have ot: "other_target probas pc = Inr ?k"
      using sh n c True by (simp add: other_target_def Let_def)
    have kc: "?k < c" using argsort_neg_bound [OF lr, of 1] c by simp
    have "?s ! 1 \<noteq> ?s ! 0"
      using argsort_neg_props(1,3) [of ?r] lr c by (simp add: nth_eq_iff_index_eq)
    then have kpc: "int ?k \<noteq> pc" using True by auto
    have best: "data probas ! j \<le> data probas ! ?k" if j: "j < c" and jp: "int j \<noteq> pc" for j
    proof -
      obtain m where m: "m < c" "?s ! m = j"
        using argsort_neg_index [OF lr j] by blast
      have "m \<noteq> 0"
      proof
        assume "m = 0"
        with m(2) True have "int j = pc" by simp
        with jp show False by simp
      qed
      then have "1 \<le> m" by simp
      then have "?r ! (?s ! m) \<le> ?r ! (?s ! 1)"
        using argsort_neg_nth_mono [of 1 m ?r] m lr by simp
      then show ?thesis using m j kc by (simp add: rj)
    qed
    show ?thesis using ot kc kpc best by blast
  next
    case False
    let ?k = "?s ! 0"
    have ot: "other_target probas pc = Inr ?k"
      using sh n c False by (simp add: other_target_def Let_def)
    have kc: "?k < c" using argsort_neg_bound [OF lr, of 0] c by simp
    have best: "data probas ! j \<le> data probas ! ?k" if j: "j < c" for j
    proof -
      obtain m where m: "m < c" "?s ! m = j"
        using argsort_neg_index [OF lr j] by blast
      have "?r ! (?s ! m) \<le> ?r ! (?s ! 0)"
        using argsort_neg_nth_mono [of 0 m ?r] m lr by simp
      then show ?thesis using m j kc by (simp add: rj)
    qed
    show ?thesis using ot kc False best by blast
  qed
qed

text \<open>
  Claim C2, as the code has it. For \<open>'other'\<close> the selector returns the policy value
  \<open>'other'\<close> itself as second component, and each call of the returned function chooses
  the class anew from the prediction on the batch of that call: on a batch \<open>X\<close> whose
  prediction has at least one row and two classes, the call returns the column of a class
  other than the predicted one whose probability in the first row is highest among those
  classes.
\<close>

theorem define_func_other_resolves_per_call:
  assumes "shape (pf X) = [n, c]" and "0 < n" and "2 \<le> c" and "wf_array (pf X)"
  shows "snd (define_func pf pc (TStr ''other'')) = TStr ''other'' \<and>
         (\<exists>k<c. int k \<noteq> pc
            \<and> (\<forall>j<c. int j \<noteq> pc \<longrightarrow> data (pf X) ! j \<le> data (pf X) ! k)
            \<and> fst (define_func pf pc (TStr ''other'')) X = select_column (pf X) (int k))"
proof -
  have "length (data (pf X)) = n * c"
    using assms(1,4) by (simp add: wf_array_def)
  then have "c \<le> length (data (pf X))"
    using assms(2) by (cases n) simp_all
  from other_target_best_other [OF assms(1-3) this, of pc]
  obtain k where k: "k < c" "other_target (pf X) pc = Inr k" "int k \<noteq> pc"
    "\<forall>j<c. int j \<noteq> pc \<longrightarrow> data (pf X) ! j \<le> data (pf X) ! k"
    by blast
  have "fst (define_func pf pc (TStr ''other'')) X = select_column (pf X) (int k)"
    using k(2) by (simp add: define_func_def)
  moreover have "snd (define_func pf pc (TStr ''other'')) = TStr ''other''"
    by (simp add: define_func_def)
  ultimately show ?thesis using k by blast
qed

text \<open>The theorem for the classifier whose probabilities are its input, at \<open>probas_a\<close>.\<close>

theorem define_func_other_resolves_per_call_witness:
  "shape (row_predictor probas_a) = [1, 3] \<and> (0::nat) < 1 \<and> (2::nat) \<le> 3
   \<and> wf_array (row_predictor probas_a)
   \<and> snd (define_func row_predictor 1 (TStr ''other'')) = TStr ''other''
   \<and> (\<exists>k<3. int k \<noteq> 1
         \<and> (\<forall>j<3. int j \<noteq> 1 \<longrightarrow> data (row_predictor probas_a) ! j \<le> data (row_predictor probas_a) ! k)
         \<and> fst (define_func row_predictor 1 (TStr ''other'')) probas_a
             = select_column (row_predictor probas_a) (int k))"
proof -
  have h1: "shape (row_predictor probas_a) = [1, 3]"
    by (simp add: row_predictor_def probas_a_def)
  have h2: "(0::nat) < 1" and h3: "(2::nat) \<le> 3"
    by simp_all
  have h4: "wf_array (row_predictor probas_a)"
    by (simp add: wf_array_def row_predictor_def probas_a_def)
  show ?thesis
    using define_func_other_resolves_per_call
      [where pf = row_predictor and X = probas_a and n = 1 and c = 3 and pc = 1, OF h1 h2 h3 h4]
      h1 h4
    by simp
qed

text \<open>
  Claim C2 as stated has the class fixed at construction and returned as second
  component. With one function built for predicted class 1, the call at \<open>probas_a\<close>
  returns the column of class 2 and the call at \<open>probas_c\<close> the column of class 0, which
  differs there from the column of class 2; the second component is \<open>'other'\<close>.
\<close>

theorem define_func_other_not_fixed_class:
  "snd (define_func row_predictor 1 (TStr ''other'')) = TStr ''other''
   \<and> fst (define_func row_predictor 1 (TStr ''other'')) probas_a
       = select_column (row_predictor probas_a) 2
   \<and> fst (define_func row_predictor 1 (TStr ''other'')) probas_c
       = select_column (row_predictor probas_c) 0
   \<and> select_column (row_predictor probas_c) 0 \<noteq> select_column (row_predictor probas_c) 2"
  by (simp add: define_func_def other_target_def select_column_def row_predictor_def
      argsort_neg_def probas_a_def probas_c_def upt_rec)




section \<open>Loss and gradient\<close>

text \<open>
  Claim C9, on the code. An array of feature-wise steps is not a float, so the step
  handed to both numerical gradients is \<open>None\<close>: the result is the one obtained with no
  epsilon configured, whatever the array holds.
\<close>

theorem get_wachter_grads_ignores_epsilon_array:
  "get_wachter_grads af X_current pcf dfn X_test tp lam (EpsArray es) m
     = get_wachter_grads af X_current pcf dfn X_test tp lam EpsNone m"
  by (simp add: get_wachter_grads_def)

text \<open>
  A float is used as the step, an array is not: near the kink of the ramp classifier the
  gradient depends on the step, and the array \<open>[0.001]\<close> gives the result of the default
  step while the float \<open>0.001\<close> gives another.
\<close>

lemma epsilon_float_is_used:
  "get_wachter_grads central_difference [1 / 200] (fst (define_func ramp_predictor 0 (TInt 1)))
     cityblock [0] (9 / 10) 1 (EpsArray [1 / 1000]) ''wachter''
     = Inr ([32241 / 40000], [- (337 / 400)])
   \<and> get_wachter_grads central_difference [1 / 200] (fst (define_func ramp_predictor 0 (TInt 1)))
     cityblock [0] (9 / 10) 1 (EpsFloat (1 / 1000)) ''wachter''
     = Inr ([32241 / 40000], [- (79 / 100)])"
  by (simp add: get_wachter_grads_def num_grad_def central_difference_def define_func_def
      select_column_def ramp_predictor_def cityblock_def broadcast1_def upt_rec
      power2_eq_square)

section \<open>The search\<close>

text \<open>
  One pass of the inner loop computes loss and gradient at the current candidate, applies
  the optimizer step to the session's variable \<open>cf\<close>, takes the new value of that
  variable as the current candidate, and appends one entry to each of the eight lists.
\<close>

lemma inner_step_result:
  assumes "inner_step self E pcf X lam (Xc, rd, w) = Inr (Xc', rd', w')"
  shows "\<exists>l g. get_wachter_grads (approx_fprime E) Xc pcf (distance_fn self) X
                  (target_proba self) lam (epsilons self) (loss_method self) = Inr (l, g)
               \<and> Xc' = fst (apply_grad E g (cf w, opt w))
               \<and> cf w' = Xc'
               \<and> opt w' = snd (apply_grad E g (cf w, opt w))
               \<and> history_lengths rd' = map Suc (history_lengths rd)
               \<and> success rd' = success rd"
  using assms
  by (auto simp: inner_step_def history_lengths_def Let_def
      split: sum.splits prod.splits)

lemma inner_loop_history:
  assumes "inner_loop self E pcf X lam n (Xc, rd, w) = Inr (Xc', rd', w')"
  shows "history_lengths rd' = map ((+) n) (history_lengths rd) \<and> success rd' = success rd"
  using assms
proof (induction n arbitrary: Xc rd w)
  case 0
  then show ?case by (simp add: history_lengths_def)
next
  case (Suc n)
  from Suc.prems obtain Xc1 rd1 w1 where
    step: "inner_step self E pcf X lam (Xc, rd, w) = Inr (Xc1, rd1, w1)" and
    rest: "inner_loop self E pcf X lam n (Xc1, rd1, w1) = Inr (Xc', rd', w')"
    by (auto split: sum.splits)
  from inner_step_result [OF step]
  have h1: "history_lengths rd1 = map Suc (history_lengths rd)" and s1: "success rd1 = success rd"
    by blast+
  from Suc.IH [OF rest] h1 s1 show ?case
    by (simp add: history_lengths_def)
qed

lemma history_lengths_X_cf [simp]: "history_lengths (rd\<lparr>X_cf := x\<rparr>) = history_lengths rd"
  by (simp add: history_lengths_def)

lemma outer_loop_history:
  assumes "lam_steps + n = max_lam_steps self"
    and "outer_loop self E pcf X n (lam, lam_steps, Xc, rd, w) = Inr res"
  shows "\<exists>lam' k Xc' rd' w'. res = Fallthrough (lam', k, Xc', rd', w')
           \<and> history_lengths rd' = map ((+) (n * max_iter self)) (history_lengths rd)
           \<and> success rd' = success rd"
  using assms
proof (induction n arbitrary: lam lam_steps Xc rd w)
  case 0
  then show ?case by (auto simp: history_lengths_def)
next
  case (Suc n)
  from Suc.prems(1) have ne: "lam_steps \<noteq> max_lam_steps self" by simp
  from Suc.prems(2) ne obtain Xc1 rd1 w1 where
    inner: "inner_loop self E pcf X lam (max_iter self) (Xc, rd, w) = Inr (Xc1, rd1, w1)" and
    rest: "outer_loop self E pcf X n
             (lam * lam_step self, lam_steps + 1, Xc1, rd1\<lparr>X_cf := Xc1\<rparr>, w1) = Inr res"
    by (auto split: sum.splits)
  from inner_loop_history [OF inner]
  have h1: "history_lengths rd1 = map ((+) (max_iter self)) (history_lengths rd)"
    and s1: "success rd1 = success rd"
    by blast+
  from Suc.prems(1) have inv: "(lam_steps + 1) + n = max_lam_steps self" by simp
  from Suc.IH [OF inv rest] obtain lam' k Xc' rd' w' where
    r: "res = Fallthrough (lam', k, Xc', rd', w')" and
    h2: "history_lengths rd' = map ((+) (n * max_iter self)) (history_lengths (rd1\<lparr>X_cf := Xc1\<rparr>))" and
    s2: "success rd' = success (rd1\<lparr>X_cf := Xc1\<rparr>)"
    by blast
  have "history_lengths rd' = map ((+) (Suc n * max_iter self)) (history_lengths rd)"
    using h2 h1 by (simp add: history_lengths_def)
  moreover have "success rd' = success rd" using s2 s1 by simp
  ultimately show ?case using r by blast
qed

lemma minimize_wachter_loss_result:
  assumes "minimize_wachter_loss self E pcf X X_init w = Inr (r, w')"
  shows "success r
       \<and> history_lengths r = map (\<lambda>_. max_lam_steps self * max_iter self) [0..<8]"
proof -
  let ?rd0 = "\<lparr>X_cf = X_init, loss = [], grads = [], dists = [], Xs = [],
               lambdas = [], prob_cond = [], prob = [], classes = [], success = False\<rparr>"
  from assms obtain res where
    ol: "outer_loop self E pcf X (max_lam_steps self) (lam_init self, 0, X_init, ?rd0, w) = Inr res"
    by (auto simp: minimize_wachter_loss_def split: sum.splits)
  from outer_loop_history [OF _ ol] obtain lam' k Xc' rd' w1 where
    r: "res = Fallthrough (lam', k, Xc', rd', w1)" and
    h: "history_lengths rd' = map ((+) (max_lam_steps self * max_iter self)) (history_lengths ?rd0)"
    by auto
  from assms ol r have "r = rd'\<lparr>success := True\<rparr>"
    by (simp add: minimize_wachter_loss_def)
  then show ?thesis using h by (simp add: history_lengths_def upt_rec)
qed

lemma explain_minimize:
  assumes "explain self E X w = Inr (r, w')"
  shows "\<exists>pcf X_init w0. minimize_wachter_loss self E pcf X X_init w0 = Inr (r, w')"
  using assms
  by (auto simp: explain_def Let_def split: sum.splits prod.splits)

text \<open>
  Claim C5. Every call of \<open>explain\<close> that returns a result returns it with
  \<open>success = True\<close>, whatever the tolerance flags recorded in the history: the
  \<open>return\<close> inside the outer loop is never taken, since \<open>lam_steps\<close> counts the passes
  made and is below \<open>max_lam_steps\<close> in every pass.
\<close>

theorem explain_success_after_loop:
  assumes "explain self E X w = Inr (r, w')"
  shows "success r"
  using explain_minimize [OF assms] minimize_wachter_loss_result by blast

text \<open>
  Claim C7. In every result that \<open>explain\<close> returns, each of the eight history lists has
  exactly \<open>max_lam_steps * max_iter\<close> entries.
\<close>

theorem explain_history_lengths:
  assumes "explain self E X w = Inr (r, w')"
  shows "length (Xs r) = max_lam_steps self * max_iter self
       \<and> length (loss r) = max_lam_steps self * max_iter self
       \<and> length (grads r) = max_lam_steps self * max_iter self
       \<and> length (dists r) = max_lam_steps self * max_iter self
       \<and> length (lambdas r) = max_lam_steps self * max_iter self
       \<and> length (prob_cond r) = max_lam_steps self * max_iter self
       \<and> length (prob r) = max_lam_steps self * max_iter self
       \<and> length (classes r) = max_lam_steps self * max_iter self"
proof -
  from explain_minimize [OF assms] minimize_wachter_loss_result
  have "history_lengths r = map (\<lambda>_. max_lam_steps self * max_iter self) [0..<8]"
    by blast
  then show ?thesis
    by (simp add: history_lengths_def upt_rec)
qed

section \<open>Two calls on a constant classifier\<close>

text \<open>
  The explainer \<open>explainer0\<close> (identity initialisation, policy \<open>'other'\<close>, three inner and
  two outer passes, target probability 0.9 with tolerance 0.05) on the classifier that
  answers \<open>[0.6, 0.4]\<close> everywhere, called on the instance \<open>[0]\<close> in a session whose
  variable \<open>cf\<close> holds \<open>[0.5]\<close>, and called again in the session the first call leaves.
\<close>

lemma CounterFactual_explainer0:
  "CounterFactual [1, 1] ''l1'' (9 / 10) (TStr ''other'') 3 1 2 2 (1 / 20) EpsNone ''wachter''
     ''identity'' [1 / 2] 0 0 = Inr (explainer0, session0)"
  by (simp add: CounterFactual_def metric_dict_def explainer0_def session0_def)

lemma CounterFactual_unknown_metric:
  "CounterFactual [1, 1] ''l2'' (9 / 10) (TStr ''other'') 3 1 2 2 (1 / 20) EpsNone ''wachter''
     ''identity'' [1 / 2] (0::nat) (0::nat) = Inl KeyError"
  by (simp add: CounterFactual_def metric_dict_def)

lemmas run_defs =
  explain_def argmax_def max_elem_def env_const_def explainer0_def
  const_predictor_def define_func_def other_target_def select_column_def argsort_neg_def
  initialize_def minimize_wachter_loss_def inner_step_def get_wachter_grads_def
  num_grad_def central_difference_def cityblock_def broadcast1_def gradient_descent_def
  prob_condition_def eval_nat_numeral upt_rec power2_eq_square

lemma explain_first_run:
  "explain explainer0 env_const [0] session0 = Inr (run_first, session_first)"
  by (simp add: run_defs session0_def run_first_def session_first_def)


text \<open>The two theorems above at the first of these calls.\<close>

theorem explain_success_after_loop_witness:
  "explain explainer0 env_const [0] session0 = Inr (run_first, session_first)
   \<and> success run_first
   \<and> prob_cond run_first = [[False], [False], [False], [False], [False], [False]]"
  using explain_success_after_loop [OF explain_first_run] explain_first_run
  by (simp add: run_first_def)

theorem explain_history_lengths_witness:
  "explain explainer0 env_const [0] session0 = Inr (run_first, session_first)
   \<and> max_lam_steps explainer0 = 2 \<and> max_iter explainer0 = 3
   \<and> length (Xs run_first) = 2 * 3 \<and> length (loss run_first) = 2 * 3
   \<and> length (grads run_first) = 2 * 3 \<and> length (dists run_first) = 2 * 3
   \<and> length (lambdas run_first) = 2 * 3 \<and> length (prob_cond run_first) = 2 * 3
   \<and> length (prob run_first) = 2 * 3 \<and> length (classes run_first) = 2 * 3"
  using explain_history_lengths [OF explain_first_run] explain_first_run
  by (simp add: explainer0_def)





end
